theory Spec2Isabelle
  imports Complex_Main "HOL-Library.AList"
begin

section \<open>JavaScript numbers\<close>

text \<open>
  The TypeScript type \<open>number\<close> is an IEEE double. Its finite values are modelled by the
  real they denote; the three special values are kept, because division by zero in
  JavaScript raises nothing and yields \<open>Infinity\<close>, \<open>-Infinity\<close> or \<open>NaN\<close>.
  Not modelled: rounding, overflow of a finite result to an infinity, and the sign of
  zero (a zero divisor is read as \<open>+0\<close>).
\<close>

datatype jsnum = Finite real | PosInfinity | NegInfinity | NaN

fun js_neg :: "jsnum \<Rightarrow> jsnum" where
  "js_neg (Finite x) = Finite (- x)"
| "js_neg PosInfinity = NegInfinity"
| "js_neg NegInfinity = PosInfinity"
| "js_neg NaN = NaN"

fun js_add :: "jsnum \<Rightarrow> jsnum \<Rightarrow> jsnum" where
  "js_add NaN _ = NaN"
| "js_add _ NaN = NaN"
| "js_add (Finite x) (Finite y) = Finite (x + y)"
| "js_add PosInfinity NegInfinity = NaN"
| "js_add NegInfinity PosInfinity = NaN"
| "js_add PosInfinity _ = PosInfinity"
| "js_add _ PosInfinity = PosInfinity"
| "js_add NegInfinity _ = NegInfinity"
| "js_add _ NegInfinity = NegInfinity"

definition js_sub :: "jsnum \<Rightarrow> jsnum \<Rightarrow> jsnum" where
  "js_sub a b = js_add a (js_neg b)"

text \<open>The sign of a non-NaN value: \<open>-1\<close>, \<open>0\<close> or \<open>1\<close>.\<close>

fun js_sign :: "jsnum \<Rightarrow> int" where
  "js_sign (Finite x) = (if x < 0 then - 1 else if x = 0 then 0 else 1)"
| "js_sign PosInfinity = 1"
| "js_sign NegInfinity = - 1"
| "js_sign NaN = 0"

definition signed_infinity :: "int \<Rightarrow> jsnum" where
  "signed_infinity s = (if s < 0 then NegInfinity else PosInfinity)"

fun js_mul :: "jsnum \<Rightarrow> jsnum \<Rightarrow> jsnum" where
  "js_mul NaN _ = NaN"
| "js_mul _ NaN = NaN"
| "js_mul (Finite x) (Finite y) = Finite (x * y)"
| "js_mul a b =
     (if js_sign a = 0 \<or> js_sign b = 0 then NaN
      else signed_infinity (js_sign a * js_sign b))"

fun js_div :: "jsnum \<Rightarrow> jsnum \<Rightarrow> jsnum" where
  "js_div NaN _ = NaN"
| "js_div _ NaN = NaN"
| "js_div (Finite x) (Finite y) =
     (if y = 0 then (if x = 0 then NaN else signed_infinity (js_sign (Finite x)))
      else Finite (x / y))"
| "js_div (Finite x) _ = Finite 0"
| "js_div a (Finite y) = signed_infinity (js_sign a * (if y < 0 then - 1 else 1))"
| "js_div _ _ = NaN"

text \<open>\<open>Math.abs\<close> and \<open>Math.min\<close> (of two arguments).\<close>

fun js_abs :: "jsnum \<Rightarrow> jsnum" where
  "js_abs (Finite x) = Finite \<bar>x\<bar>"
| "js_abs PosInfinity = PosInfinity"
| "js_abs NegInfinity = PosInfinity"
| "js_abs NaN = NaN"

text \<open>The comparisons \<open><\<close> and \<open><=\<close>; any comparison with \<open>NaN\<close> is false.\<close>

fun js_lt :: "jsnum \<Rightarrow> jsnum \<Rightarrow> bool" where
  "js_lt NaN _ = False"
| "js_lt _ NaN = False"
| "js_lt (Finite x) (Finite y) = (x < y)"
| "js_lt _ NegInfinity = False"
| "js_lt NegInfinity _ = True"
| "js_lt PosInfinity _ = False"
| "js_lt _ PosInfinity = True"

fun js_le :: "jsnum \<Rightarrow> jsnum \<Rightarrow> bool" where
  "js_le NaN _ = False"
| "js_le _ NaN = False"
| "js_le (Finite x) (Finite y) = (x \<le> y)"
| "js_le NegInfinity _ = True"
| "js_le _ PosInfinity = True"
| "js_le _ _ = False"

definition js_gt :: "jsnum \<Rightarrow> jsnum \<Rightarrow> bool" where
  "js_gt a b = js_lt b a"

definition js_ge :: "jsnum \<Rightarrow> jsnum \<Rightarrow> bool" where
  "js_ge a b = js_le b a"

fun js_min :: "jsnum \<Rightarrow> jsnum \<Rightarrow> jsnum" where
  "js_min NaN _ = NaN"
| "js_min _ NaN = NaN"
| "js_min a b = (if js_lt b a then b else a)"

fun js_finite :: "jsnum \<Rightarrow> bool" where
  "js_finite (Finite _) = True"
| "js_finite _ = False"


section \<open>Types of the repository (types/chain.ts, types/price.ts)\<close>

datatype ChainId = ETHEREUM | ARBITRUM | POLYGON | BASE

datatype DexName =
  UNISWAP_V2 | UNISWAP_V3 | SUSHISWAP | CAMELOT | QUICKSWAP | AERODROME | BASESWAP

text \<open>
  A \<open>PriceData\<close> record. The \<open>id\<close> field (a fresh random UUID) is left out; times are
  milliseconds since the epoch, as \<open>Date.getTime()\<close> reads them.
\<close>

record PriceData =
  chainId :: ChainId
  dexName :: DexName
  tokenPair :: string
  baseToken :: string
  quoteToken :: string
  price :: jsnum
  priceUsd :: jsnum
  liquidity :: jsnum
  volume24h :: jsnum
  timestamp :: int
  blockNumber :: int
  gasPrice :: "int option"
  feeTier :: "int option"

text \<open>
  An \<open>ArbitrageOpportunity\<close> record (again without its random \<open>id\<close>). Four fields share
  their name with a field of \<open>PriceData\<close> or of the configuration and carry the prefix
  \<open>opp\<close> here.
\<close>

record ArbitrageOpportunity =
  oppTokenPair :: string
  oppBaseToken :: string
  oppQuoteToken :: string
  sourceChain :: ChainId
  sourceDex :: DexName
  targetChain :: ChainId
  targetDex :: DexName
  sourcePrice :: jsnum
  targetPrice :: jsnum
  priceDifference :: jsnum
  priceDifferencePercent :: jsnum
  potentialProfit :: jsnum
  gasCost :: jsnum
  netProfit :: jsnum
  profitMargin :: jsnum
  oppTimestamp :: int
  isProfitable :: bool
  oppMinProfitThreshold :: jsnum

text \<open>The \<open>trading\<close> section of \<open>AppConfig\<close>.\<close>

record TradingConfig =
  minProfitThreshold :: jsnum
  maxGasCost :: jsnum
  minLiquidityThreshold :: jsnum

text \<open>\<open>SYSTEM_CONSTANTS\<close> and the gas limits of \<open>GAS_PRICES\<close> (utils/constants.ts).\<close>

definition MAX_RETRIES :: nat where "MAX_RETRIES = 3"
definition PRICE_UPDATE_INTERVAL :: int where "PRICE_UPDATE_INTERVAL = 1000"
definition MAX_PRICE_AGE :: int where "MAX_PRICE_AGE = 60000"

fun gasLimit :: "ChainId \<Rightarrow> int" where
  "gasLimit ETHEREUM = 300000"
| "gasLimit ARBITRUM = 1000000"
| "gasLimit POLYGON = 500000"
| "gasLimit BASE = 500000"


section \<open>The price calculator (services/priceCalculator.ts)\<close>

subsection \<open>Collaborators\<close>

text \<open>
  \<open>estimateGasCost\<close> asks the chain manager for a provider and the provider for its fee
  data. The answer of that round trip is an input of the model: either the round trip
  raised, or it delivered fee data whose \<open>gasPrice\<close> is a bigint or \<open>null\<close>.
  \<open>storeArbitrageOpportunity\<close> hands a record to the database service, which may raise.
  The answers are indexed by the number of calls made so far, so that two calls need not
  agree.
\<close>

datatype fee_reply = FeeFailed | FeeData "int option"

record Collaborators =
  feeData :: "nat \<Rightarrow> ChainId \<Rightarrow> fee_reply"
  dbSave :: "nat \<Rightarrow> bool"

text \<open>
  What a run of the calculator changes: the two call counters, the records passed to
  \<open>logArbitrageOpportunity\<close> and the records passed to \<open>storeArbitrageOpportunity\<close>.
\<close>

record CalcState =
  gasCalls :: nat
  dbCalls :: nat
  logged :: "ArbitrageOpportunity list"
  forwarded :: "ArbitrageOpportunity list"

datatype calc_error = DatabaseError

subsection \<open>estimateGasCost\<close>

text \<open>
  \<open>gasCostWei = (gasPrice.gasPrice || 0n) * BigInt(gasLimit)\<close>, converted with
  \<open>Number(gasCostWei) / 1e18 * 2000\<close>; any exception is caught and gives \<open>0\<close>.
\<close>

definition estimateGasCost :: "fee_reply \<Rightarrow> ChainId \<Rightarrow> jsnum" where
  "estimateGasCost reply c =
     (case reply of
        FeeFailed \<Rightarrow> Finite 0
      | FeeData g \<Rightarrow>
          (let gasCostWei = (case g of None \<Rightarrow> 0 | Some p \<Rightarrow> p) * gasLimit c;
               gasCostEth = js_div (Finite (real_of_int gasCostWei)) (Finite (10 ^ 18));
               ethPrice = Finite 2000
           in js_mul gasCostEth ethPrice))"

subsection \<open>calculateOpportunity\<close>

text \<open>
  The body of the \<open>try\<close> block. No operation in it raises in the model (arithmetic on
  numbers never raises and \<open>estimateGasCost\<close> catches its own exceptions), so the
  \<open>catch\<close> branch, which returns \<open>null\<close>, has no counterpart. \<open>None\<close> is the \<open>null\<close>
  returned when the price difference is below the threshold. \<open>now\<close> is the clock at the
  call.
\<close>

definition calculateOpportunity ::
  "TradingConfig \<Rightarrow> Collaborators \<Rightarrow> int \<Rightarrow> PriceData \<Rightarrow> PriceData \<Rightarrow> CalcState
     \<Rightarrow> ArbitrageOpportunity option \<times> CalcState" where
  "calculateOpportunity config env now sourceP targetP st =
     (let priceDiff = js_abs (js_sub (price sourceP) (price targetP));
          priceDiffPercent =
            js_mul (js_div priceDiff (js_min (price sourceP) (price targetP))) (Finite 100)
      in if js_lt priceDiffPercent (minProfitThreshold config) then (None, st)
         else
           (let isSourceCheaper = js_lt (price sourceP) (price targetP);
                buyPrice = (if isSourceCheaper then price sourceP else price targetP);
                sellPrice = (if isSourceCheaper then price targetP else price sourceP);
                buyChain = (if isSourceCheaper then chainId sourceP else chainId targetP);
                sellChain = (if isSourceCheaper then chainId targetP else chainId sourceP);
                buyDex = (if isSourceCheaper then dexName sourceP else dexName targetP);
                sellDex = (if isSourceCheaper then dexName targetP else dexName sourceP);
                potential = js_mul (js_sub sellPrice buyPrice) (liquidity sourceP);
                buyGasCost = estimateGasCost (feeData env (gasCalls st) buyChain) buyChain;
                sellGasCost =
                  estimateGasCost (feeData env (Suc (gasCalls st)) sellChain) sellChain;
                totalGasCost = js_add buyGasCost sellGasCost;
                net = js_sub potential totalGasCost;
                margin = js_mul (js_div net potential) (Finite 100);
                profitable =
                  (js_gt net (Finite 0) \<and> js_ge margin (minProfitThreshold config)
                   \<and> js_le totalGasCost (maxGasCost config))
            in (Some \<lparr> oppTokenPair = tokenPair sourceP,
                        oppBaseToken = baseToken sourceP,
                        oppQuoteToken = quoteToken sourceP,
                        sourceChain = buyChain,
                        sourceDex = buyDex,
                        targetChain = sellChain,
                        targetDex = sellDex,
                        sourcePrice = buyPrice,
                        targetPrice = sellPrice,
                        priceDifference = priceDiff,
                        priceDifferencePercent = priceDiffPercent,
                        potentialProfit = potential,
                        gasCost = totalGasCost,
                        netProfit = net,
                        profitMargin = margin,
                        oppTimestamp = now,
                        isProfitable = profitable,
                        oppMinProfitThreshold = minProfitThreshold config \<rparr>,
                st\<lparr>gasCalls := gasCalls st + 2\<rparr>)))"

subsection \<open>calculatePairOpportunities\<close>

text \<open>
  The database service as a collaborator: the record is handed over, and the call then
  returns or raises as the environment says. \<open>logArbitrageOpportunity\<close> only records.
\<close>

definition logArbitrageOpportunity :: "ArbitrageOpportunity \<Rightarrow> CalcState \<Rightarrow> CalcState" where
  "logArbitrageOpportunity opp st = st\<lparr>logged := logged st @ [opp]\<rparr>"

definition storeArbitrageOpportunity ::
  "Collaborators \<Rightarrow> ArbitrageOpportunity \<Rightarrow> CalcState \<Rightarrow> (calc_error + unit) \<times> CalcState" where
  "storeArbitrageOpportunity env opp st =
     (let st' = st\<lparr>dbCalls := Suc (dbCalls st), forwarded := forwarded st @ [opp]\<rparr>
      in if dbSave env (dbCalls st) then (Inr (), st') else (Inl DatabaseError, st'))"

text \<open>
  The pairs \<open>(recentPrices[i], recentPrices[j])\<close> with \<open>i < j\<close>, in the order in which
  the two nested \<open>for\<close> loops visit them.
\<close>

fun pairsOf :: "'a list \<Rightarrow> ('a \<times> 'a) list" where
  "pairsOf [] = []"
| "pairsOf (x # xs) = map (Pair x) xs @ pairsOf xs"

text \<open>
  The body of the inner loop, run over those pairs. \<open>opportunities\<close> is the array being
  filled. An exception of the database service leaves the loops and the function: it is
  not caught here.
\<close>

fun comparePrices ::
  "TradingConfig \<Rightarrow> Collaborators \<Rightarrow> int \<Rightarrow> (PriceData \<times> PriceData) list
     \<Rightarrow> ArbitrageOpportunity list \<Rightarrow> CalcState
     \<Rightarrow> (calc_error + ArbitrageOpportunity list) \<times> CalcState" where
  "comparePrices config env now [] opportunities st = (Inr opportunities, st)"
| "comparePrices config env now ((sourceP, targetP) # rest) opportunities st =
     (if chainId sourceP = chainId targetP \<and> dexName sourceP = dexName targetP
      then comparePrices config env now rest opportunities st
      else
        (case calculateOpportunity config env now sourceP targetP st of
           (None, st1) \<Rightarrow> comparePrices config env now rest opportunities st1
         | (Some opp, st1) \<Rightarrow>
             (if isProfitable opp then
                (case storeArbitrageOpportunity env opp (logArbitrageOpportunity opp st1) of
                   (Inl e, st2) \<Rightarrow> (Inl e, st2)
                 | (Inr _, st2) \<Rightarrow>
                     comparePrices config env now rest (opportunities @ [opp]) st2)
              else comparePrices config env now rest opportunities st1)))"

text \<open>
  \<open>now\<close> is the clock during the call (the source reads \<open>Date.now()\<close> once per element
  of the filter; the model reads it as one instant).
\<close>

definition isRecent :: "int \<Rightarrow> PriceData \<Rightarrow> bool" where
  "isRecent now p = (now - timestamp p < MAX_PRICE_AGE)"

definition calculatePairOpportunities ::
  "TradingConfig \<Rightarrow> Collaborators \<Rightarrow> int \<Rightarrow> PriceData list \<Rightarrow> CalcState
     \<Rightarrow> (calc_error + ArbitrageOpportunity list) \<times> CalcState" where
  "calculatePairOpportunities config env now prices st =
     (let recentPrices = filter (isRecent now) prices
      in if length recentPrices < 2 then (Inr [], st)
         else comparePrices config env now (pairsOf recentPrices) [] st)"

text \<open>
  For comparison with the specification, which asks for a record for every surviving
  cross-venue pair whatever its flag: the records \<open>calculateOpportunity\<close> produces over
  the same pairs, none left out.
\<close>

fun survivingRecords ::
  "TradingConfig \<Rightarrow> Collaborators \<Rightarrow> int \<Rightarrow> (PriceData \<times> PriceData) list \<Rightarrow> CalcState
     \<Rightarrow> ArbitrageOpportunity list" where
  "survivingRecords config env now [] st = []"
| "survivingRecords config env now ((sourceP, targetP) # rest) st =
     (if chainId sourceP = chainId targetP \<and> dexName sourceP = dexName targetP
      then survivingRecords config env now rest st
      else
        (case calculateOpportunity config env now sourceP targetP st of
           (None, st1) \<Rightarrow> survivingRecords config env now rest st1
         | (Some opp, st1) \<Rightarrow> opp # survivingRecords config env now rest st1))"


section \<open>The DEX monitor (services/dexMonitor.ts)\<close>

subsection \<open>Configuration\<close>

text \<open>
  \<open>TokenPair\<close> and \<open>DexConfig\<close>; fields that share a name with a field above carry the
  prefix \<open>pair\<close> or \<open>cfg\<close>.
\<close>

record TokenPair =
  pairBaseToken :: string
  pairQuoteToken :: string
  baseTokenAddress :: string
  quoteTokenAddress :: string
  baseTokenDecimals :: nat
  quoteTokenDecimals :: nat
  pairAddress :: string

record DexConfig =
  cfgName :: DexName
  cfgChainId :: ChainId
  factoryAddress :: string
  routerAddress :: string
  version :: string
  cfgFeeTier :: "int option"
  cfgIsActive :: bool

definition TOKEN_PAIRS :: "TokenPair list" where
  "TOKEN_PAIRS =
     [\<lparr> pairBaseToken = ''ETH'', pairQuoteToken = ''USDC'',
         baseTokenAddress = ''0xC02aaA39b223FE8D0A0e5C4F27eAD9083C756Cc2'',
         quoteTokenAddress = ''0xA0b86a33E6441b8C4C8C8C8C8C8C8C8C8C8C8C8'',
         baseTokenDecimals = 18, quoteTokenDecimals = 6, pairAddress = [] \<rparr>,
      \<lparr> pairBaseToken = ''ETH'', pairQuoteToken = ''USDT'',
         baseTokenAddress = ''0xC02aaA39b223FE8D0A0e5C4F27eAD9083C756Cc2'',
         quoteTokenAddress = ''0xdAC17F958D2ee523a2206206994597C13D831ec7'',
         baseTokenDecimals = 18, quoteTokenDecimals = 6, pairAddress = [] \<rparr>,
      \<lparr> pairBaseToken = ''WBTC'', pairQuoteToken = ''USDC'',
         baseTokenAddress = ''0x2260FAC5E5542a773Aa44fBCfeDf7C193bc2C599'',
         quoteTokenAddress = ''0xA0b86a33E6441b8C4C8C8C8C8C8C8C8C8C8C8C8'',
         baseTokenDecimals = 8, quoteTokenDecimals = 6, pairAddress = [] \<rparr>,
      \<lparr> pairBaseToken = ''WBTC'', pairQuoteToken = ''ETH'',
         baseTokenAddress = ''0x2260FAC5E5542a773Aa44fBCfeDf7C193bc2C599'',
         quoteTokenAddress = ''0xC02aaA39b223FE8D0A0e5C4F27eAD9083C756Cc2'',
         baseTokenDecimals = 8, quoteTokenDecimals = 18, pairAddress = [] \<rparr>]"

text \<open>How a template literal prints the two enums: the chain's number, the venue's string.\<close>

fun chainIdString :: "ChainId \<Rightarrow> string" where
  "chainIdString ETHEREUM = ''1''"
| "chainIdString ARBITRUM = ''42161''"
| "chainIdString POLYGON = ''137''"
| "chainIdString BASE = ''8453''"

fun dexNameString :: "DexName \<Rightarrow> string" where
  "dexNameString UNISWAP_V2 = ''uniswap_v2''"
| "dexNameString UNISWAP_V3 = ''uniswap_v3''"
| "dexNameString SUSHISWAP = ''sushiswap''"
| "dexNameString CAMELOT = ''camelot''"
| "dexNameString QUICKSWAP = ''quickswap''"
| "dexNameString AERODROME = ''aerodrome''"
| "dexNameString BASESWAP = ''baseswap''"

definition toLowerCase :: "string \<Rightarrow> string" where
  "toLowerCase s =
     map (\<lambda>c. let n = (of_char c :: nat) in if 65 \<le> n \<and> n \<le> 90 then char_of (n + 32) else c) s"

subsection \<open>State and collaborators\<close>

text \<open>
  The two \<open>Map\<close>s of the monitor are association lists: a JavaScript \<open>Map\<close> iterates in
  insertion order, and \<open>set\<close> on a key already present replaces the value in place,
  which is what \<open>AList.update\<close> does. \<open>storedPrices\<close> and \<open>performanceMetrics\<close> are the
  records handed to \<open>storePriceData\<close> and \<open>storePerformanceMetric\<close> of the database
  service.
\<close>

record PerformanceMetric =
  operation :: string
  duration_ms :: int
  success :: bool
  metricChainId :: "ChainId option"
  metricDexName :: "DexName option"
  error_message :: "string option"

record DexMonitor =
  priceCache :: "(string \<times> PriceData) list"
  lastUpdateTime :: "(string \<times> int) list"
  storedPrices :: "PriceData list"
  performanceMetrics :: "PerformanceMetric list"

datatype js_error = Error string | ReferenceError string

text \<open>
  What the chain and the database answer during one fetch. \<open>Inl msg\<close> is an exception
  with that message. \<open>pairContract a\<close> is the answer of \<open>getReserves\<close>, \<open>token0\<close> and
  \<open>token1\<close> of the pair at address \<open>a\<close>; \<open>poolContract a\<close> that of \<open>slot0\<close> (its first
  component) and \<open>liquidity\<close> of the pool at \<open>a\<close>.
\<close>

record ChainReads =
  getProviderR :: "string + unit"
  getBlockNumberR :: "string + int"
  getFeeDataR :: "string + int option"
  pairContractR :: "string \<Rightarrow> string + (int \<times> int \<times> string \<times> string)"
  poolContractR :: "string \<Rightarrow> string + (int \<times> int)"
  storePriceDataR :: "string + unit"

subsection \<open>The fetchers\<close>

text \<open>
  \<open>getPairAddress\<close> and \<open>getPoolAddress\<close> are placeholders in the source: both return
  \<open>null\<close> for every argument.
\<close>

definition getPairAddress :: "DexConfig \<Rightarrow> TokenPair \<Rightarrow> string option" where
  "getPairAddress dexConfig pair = None"

definition getPoolAddress :: "DexConfig \<Rightarrow> TokenPair \<Rightarrow> string option" where
  "getPoolAddress dexConfig pair = None"

definition calculateUniswapV3Price :: "int \<Rightarrow> jsnum" where
  "calculateUniswapV3Price sqrtPriceX96 =
     (let Q96 = (2::int) ^ 96
      in js_div (Finite (real_of_int (sqrtPriceX96 * sqrtPriceX96 * Q96)))
                (Finite (real_of_int (Q96 * Q96))))"

definition fetchUniswapV2Price ::
  "ChainReads \<Rightarrow> DexConfig \<Rightarrow> TokenPair \<Rightarrow> int \<Rightarrow> int option \<Rightarrow> int \<Rightarrow> js_error + PriceData" where
  "fetchUniswapV2Price reads dexConfig pair blockNo gasPr now =
     (case getPairAddress dexConfig pair of
        None \<Rightarrow> Inl (Error ''Pair address not found'')
      | Some pairAddr \<Rightarrow>
          (case pairContractR reads pairAddr of
             Inl msg \<Rightarrow> Inl (Error msg)
           | Inr (reserve0, reserve1, token0, token1) \<Rightarrow>
               (let isToken0Base = (toLowerCase token0 = toLowerCase (baseTokenAddress pair));
                    baseReserve = (if isToken0Base then reserve0 else reserve1);
                    quoteReserve = (if isToken0Base then reserve1 else reserve0);
                    pr = js_div (Finite (real_of_int quoteReserve)) (Finite (real_of_int baseReserve));
                    liq = js_add (Finite (real_of_int baseReserve)) (Finite (real_of_int quoteReserve))
                in Inr \<lparr> chainId = cfgChainId dexConfig,
                         dexName = cfgName dexConfig,
                         tokenPair = pairBaseToken pair @ ''/'' @ pairQuoteToken pair,
                         baseToken = pairBaseToken pair,
                         quoteToken = pairQuoteToken pair,
                         price = pr,
                         priceUsd = pr,
                         liquidity = liq,
                         volume24h = Finite 0,
                         timestamp = now,
                         blockNumber = blockNo,
                         gasPrice = gasPr,
                         feeTier = None \<rparr>)))"

definition fetchUniswapV3Price ::
  "ChainReads \<Rightarrow> DexConfig \<Rightarrow> TokenPair \<Rightarrow> int \<Rightarrow> int option \<Rightarrow> int \<Rightarrow> js_error + PriceData" where
  "fetchUniswapV3Price reads dexConfig pair blockNo gasPr now =
     (case getPoolAddress dexConfig pair of
        None \<Rightarrow> Inl (Error ''Pool address not found'')
      | Some poolAddr \<Rightarrow>
          (case poolContractR reads poolAddr of
             Inl msg \<Rightarrow> Inl (Error msg)
           | Inr (sqrtPriceX96, liq) \<Rightarrow>
               (let pr = calculateUniswapV3Price sqrtPriceX96
                in Inr \<lparr> chainId = cfgChainId dexConfig,
                         dexName = cfgName dexConfig,
                         tokenPair = pairBaseToken pair @ ''/'' @ pairQuoteToken pair,
                         baseToken = pairBaseToken pair,
                         quoteToken = pairQuoteToken pair,
                         price = pr,
                         priceUsd = pr,
                         liquidity = Finite (real_of_int liq),
                         volume24h = Finite 0,
                         timestamp = now,
                         blockNumber = blockNo,
                         gasPrice = gasPr,
                         feeTier = cfgFeeTier dexConfig \<rparr>)))"

definition fetchSushiSwapPrice ::
  "ChainReads \<Rightarrow> DexConfig \<Rightarrow> TokenPair \<Rightarrow> int \<Rightarrow> int option \<Rightarrow> int \<Rightarrow> js_error + PriceData" where
  "fetchSushiSwapPrice = fetchUniswapV2Price"

subsection \<open>fetchPriceForDex\<close>

definition cacheKey :: "DexConfig \<Rightarrow> TokenPair \<Rightarrow> string" where
  "cacheKey dexConfig pair =
     chainIdString (cfgChainId dexConfig) @ ''-'' @ dexNameString (cfgName dexConfig)
       @ ''-'' @ pairBaseToken pair @ ''-'' @ pairQuoteToken pair"

text \<open>
  The statements of the \<open>try\<close> block up to the end of the \<open>switch\<close>: the provider, the
  block number, the fee data, then the fetcher of the venue. \<open>Inr None\<close> is the
  \<open>default\<close> branch, which warns and returns.
\<close>

definition fetchQuote ::
  "ChainReads \<Rightarrow> DexConfig \<Rightarrow> TokenPair \<Rightarrow> int \<Rightarrow> js_error + PriceData option" where
  "fetchQuote reads dexConfig pair now =
     (case getProviderR reads of
        Inl msg \<Rightarrow> Inl (Error msg)
      | Inr _ \<Rightarrow>
          (case getBlockNumberR reads of
             Inl msg \<Rightarrow> Inl (Error msg)
           | Inr blockNo \<Rightarrow>
               (case getFeeDataR reads of
                  Inl msg \<Rightarrow> Inl (Error msg)
                | Inr gasPr \<Rightarrow>
                    (case cfgName dexConfig of
                       UNISWAP_V2 \<Rightarrow>
                         map_sum id Some (fetchUniswapV2Price reads dexConfig pair blockNo gasPr now)
                     | UNISWAP_V3 \<Rightarrow>
                         map_sum id Some (fetchUniswapV3Price reads dexConfig pair blockNo gasPr now)
                     | SUSHISWAP \<Rightarrow>
                         map_sum id Some (fetchSushiSwapPrice reads dexConfig pair blockNo gasPr now)
                     | _ \<Rightarrow> Inr None))))"

text \<open>\<open>priceCache.set(cacheKey, priceData)\<close> and \<open>lastUpdateTime.set(cacheKey, now)\<close>.\<close>

definition cachePrice :: "string \<Rightarrow> int \<Rightarrow> PriceData \<Rightarrow> DexMonitor \<Rightarrow> DexMonitor" where
  "cachePrice key now priceData s =
     s\<lparr>priceCache := AList.update key priceData (priceCache s),
       lastUpdateTime := AList.update key now (lastUpdateTime s)\<rparr>"

text \<open>
  The two operations of the database service that the monitor names (services/database.ts):
  each appends to its list, keeps the last 10000 prices or the last 1000 metrics, and
  saves; a failure of the save is the exception the reply carries.
\<close>

definition storePriceData ::
  "string + unit \<Rightarrow> PriceData \<Rightarrow> DexMonitor \<Rightarrow> (js_error + unit) \<times> DexMonitor" where
  "storePriceData reply priceData s =
     (let ps = storedPrices s @ [priceData];
          s' = s\<lparr>storedPrices := (if length ps > 10000 then drop (length ps - 10000) ps else ps)\<rparr>
      in case reply of Inl msg \<Rightarrow> (Inl (Error msg), s') | Inr _ \<Rightarrow> (Inr (), s'))"

definition storePerformanceMetric ::
  "string + unit \<Rightarrow> PerformanceMetric \<Rightarrow> DexMonitor \<Rightarrow> (js_error + unit) \<times> DexMonitor" where
  "storePerformanceMetric reply metric s =
     (let ms = performanceMetrics s @ [metric];
          s' = s\<lparr>performanceMetrics := (if length ms > 1000 then drop (length ms - 1000) ms else ms)\<rparr>
      in case reply of Inl msg \<Rightarrow> (Inl (Error msg), s') | Inr _ \<Rightarrow> (Inr (), s'))"

text \<open>
  The \<open>catch\<close> block. It logs the error and then evaluates the arguments of
  \<open>storePerformanceMetric\<close>. The second argument is \<open>Date.now() - startTime\<close>, and
  \<open>startTime\<close> is declared by \<open>const\<close> inside the block of \<open>try\<close>: the name is not bound
  in the \<open>catch\<close> block, nor in the method, the module or the global scope. Evaluating
  the argument therefore raises \<open>ReferenceError\<close> before \<open>storePerformanceMetric\<close> is
  entered, and the method ends with that exception; the state is as the \<open>try\<close> block
  left it.
\<close>

definition onFetchError :: "js_error \<Rightarrow> DexMonitor \<Rightarrow> (js_error + unit) \<times> DexMonitor" where
  "onFetchError e s = (Inl (ReferenceError ''startTime is not defined''), s)"

text \<open>
  \<open>now\<close> is the clock during the call. \<open>lastUpdateTime.get(cacheKey) || 0\<close> is \<open>0\<close> for
  an absent key.
\<close>

definition fetchPriceForDex ::
  "ChainReads \<Rightarrow> DexConfig \<Rightarrow> TokenPair \<Rightarrow> int \<Rightarrow> DexMonitor \<Rightarrow> (js_error + unit) \<times> DexMonitor" where
  "fetchPriceForDex reads dexConfig pair now s =
     (let key = cacheKey dexConfig pair;
          lastUpdate = (case map_of (lastUpdateTime s) key of None \<Rightarrow> 0 | Some t \<Rightarrow> t)
      in if now - lastUpdate < PRICE_UPDATE_INTERVAL then (Inr (), s)
         else
           (case fetchQuote reads dexConfig pair now of
              Inl e \<Rightarrow> onFetchError e s
            | Inr None \<Rightarrow> (Inr (), s)
            | Inr (Some priceData) \<Rightarrow>
                (case storePriceData (storePriceDataR reads) priceData
                        (cachePrice key now priceData s) of
                   (Inl e, s') \<Rightarrow> onFetchError e s'
                 | (Inr _, s') \<Rightarrow> (Inr (), s'))))"

subsection \<open>Reading the cache\<close>

text \<open>\<open>priceCache.get(cacheKey) || null\<close>: \<open>None\<close> is \<open>null\<close>.\<close>

definition getCachedPrice :: "DexMonitor \<Rightarrow> ChainId \<Rightarrow> DexName \<Rightarrow> string \<Rightarrow> PriceData option" where
  "getCachedPrice s c d tokPair =
     map_of (priceCache s) (chainIdString c @ ''-'' @ dexNameString d @ ''-'' @ tokPair)"

definition getAllCachedPrices :: "DexMonitor \<Rightarrow> PriceData list" where
  "getAllCachedPrices s = map snd (priceCache s)"

definition clearCache :: "DexMonitor \<Rightarrow> DexMonitor" where
  "clearCache s = s\<lparr>priceCache := [], lastUpdateTime := []\<rparr>"

text \<open>The monitor as its constructor leaves it, with an empty database.\<close>

definition newDexMonitor :: DexMonitor where
  "newDexMonitor =
     \<lparr> priceCache = [], lastUpdateTime = [], storedPrices = [], performanceMetrics = [] \<rparr>"

text \<open>
  A run of the poller from a state: fetches, each with its venue, its pair, its time and
  what the chain answers to it.
\<close>

fun monitorRun :: "(ChainReads \<times> DexConfig \<times> TokenPair \<times> int) list \<Rightarrow> DexMonitor \<Rightarrow> DexMonitor" where
  "monitorRun [] s = s"
| "monitorRun ((reads, dexConfig, pair, now) # rest) s =
     monitorRun rest (snd (fetchPriceForDex reads dexConfig pair now s))"


section \<open>The chain manager (services/chainManager.ts)\<close>

subsection \<open>State\<close>

text \<open>
  A provider is the object built from an endpoint's URL. \<open>None\<close> in the two provider
  fields is \<open>null\<close>. Times are milliseconds.
\<close>

datatype provider = JsonRpcProvider string | WebSocketProvider string

record RpcConnection =
  url :: string
  isActive :: bool
  lastUsed :: int
  latency :: int
  errorCount :: nat
  maxRetries :: nat

record ChainConnection =
  connChainId :: ChainId
  provider :: "provider option"
  wsProvider :: "provider option"
  connections :: "RpcConnection list"
  currentConnectionIndex :: nat
  isHealthy :: bool
  lastBlockNumber :: int
  lastBlockTime :: int

text \<open>An endpoint as \<open>createRpcConnections\<close> builds it at time \<open>t\<close>.\<close>

definition newRpcConnection :: "string \<Rightarrow> int \<Rightarrow> RpcConnection" where
  "newRpcConnection u t =
     \<lparr> url = u, isActive = True, lastUsed = t, latency = 0, errorCount = 0,
       maxRetries = MAX_RETRIES \<rparr>"

text \<open>
  The manager: its \<open>Map\<close> of chain connections, and the number of round trips to an
  endpoint it has made so far (kept to state what input and output an operation does).
  The operations are modelled one call at a time: a call runs to its end before the next
  begins. \<open>getWebSocketProvider\<close>, which nothing in the repository calls, is not
  modelled.
\<close>

record ChainManager =
  chainConnections :: "ChainId \<Rightarrow> ChainConnection option"
  roundTrips :: nat

text \<open>
  The network: the answer to the \<open>n\<close>-th round trip (\<open>getBlockNumber\<close> on a new provider
  for a URL), which fails or succeeds after some latency at some time.
\<close>

datatype probe_reply = ProbeFailed | ProbeOk int int

type_synonym network = "nat \<Rightarrow> string \<Rightarrow> probe_reply"

subsection \<open>establishConnection\<close>

text \<open>
  The call of \<open>pRetry\<close> for one endpoint, with \<open>n\<close> attempts left. The library
  (p-retry, not part of the repository) runs the operation again after a failure until
  the retries are used up, and calls \<open>onFailedAttempt\<close> after every failed attempt;
  with \<open>retries: 2\<close> there are three attempts. The operation itself resets the counter
  when its round trip succeeds. The result carries the provider and the time of the
  successful round trip.
\<close>

fun pRetry ::
  "nat \<Rightarrow> network \<Rightarrow> nat \<Rightarrow> RpcConnection \<Rightarrow> (provider \<times> int) option \<times> RpcConnection \<times> nat" where
  "pRetry 0 net k rc = (None, rc, k)"
| "pRetry (Suc n) net k rc =
     (case net k (url rc) of
        ProbeOk lat t \<Rightarrow>
          (Some (JsonRpcProvider (url rc), t),
           rc\<lparr>latency := lat, lastUsed := t, errorCount := 0\<rparr>, Suc k)
      | ProbeFailed \<Rightarrow> pRetry n net (Suc k) (rc\<lparr>errorCount := errorCount rc + 1\<rparr>))"

text \<open>
  The \<open>try\<close>/\<open>catch\<close> around \<open>pRetry\<close> for one endpoint: when \<open>pRetry\<close> gives up, the
  \<open>catch\<close> block counts one more error and clears the active flag.
\<close>

definition connectEndpoint ::
  "network \<Rightarrow> nat \<Rightarrow> RpcConnection \<Rightarrow> (provider \<times> int) option \<times> RpcConnection \<times> nat" where
  "connectEndpoint net k rc =
     (case pRetry 3 net k rc of
        (Some r, rc', k') \<Rightarrow> (Some r, rc', k')
      | (None, rc', k') \<Rightarrow> (None, rc'\<lparr>errorCount := errorCount rc' + 1, isActive := False\<rparr>, k'))"

text \<open>
  The \<open>for\<close> loop over \<open>connection.connections\<close>: \<open>visited\<close> are the endpoints before
  index \<open>i\<close> (so \<open>i = length visited\<close>), as the loop has left them; the third argument
  are those from index \<open>i\<close> on. The result is the provider found, its index and the
  time, the endpoints as the loop leaves them, and the round trips made.
\<close>

fun tryConnections ::
  "network \<Rightarrow> RpcConnection list \<Rightarrow> RpcConnection list \<Rightarrow> nat
     \<Rightarrow> (provider \<times> nat \<times> int) option \<times> RpcConnection list \<times> nat" where
  "tryConnections net visited [] k = (None, visited, k)"
| "tryConnections net visited (rc # rest) k =
     (if \<not> isActive rc \<or> errorCount rc \<ge> maxRetries rc
      then tryConnections net (visited @ [rc]) rest k
      else
        (case connectEndpoint net k rc of
           (Some (p, t), rc', k') \<Rightarrow> (Some (p, length visited, t), visited @ rc' # rest, k')
         | (None, rc', k') \<Rightarrow> tryConnections net (visited @ [rc']) rest k'))"

text \<open>
  \<open>getChainConfig\<close> finds a configuration for each of the four chains, so its exception
  has no counterpart; its result is not used. The time written to \<open>lastBlockTime\<close> is
  read as the time of the successful round trip.
\<close>

definition establishConnection ::
  "network \<Rightarrow> ChainConnection \<Rightarrow> nat \<Rightarrow> (js_error + provider) \<times> ChainConnection \<times> nat" where
  "establishConnection net conn k =
     (case tryConnections net [] (connections conn) k of
        (Some (p, i, t), cs, k') \<Rightarrow>
          (Inr p,
           conn\<lparr>connections := cs, provider := Some p, currentConnectionIndex := i,
                isHealthy := True, lastBlockTime := t\<rparr>,
           k')
      | (None, cs, k') \<Rightarrow>
          (Inl (Error ''All RPC connections failed''),
           conn\<lparr>connections := cs, isHealthy := False\<rparr>,
           k'))"

subsection \<open>getProvider\<close>

definition getProvider ::
  "network \<Rightarrow> ChainManager \<Rightarrow> ChainId \<Rightarrow> (js_error + provider) \<times> ChainManager" where
  "getProvider net m c =
     (case chainConnections m c of
        None \<Rightarrow> (Inl (Error ''No connection found''), m)
      | Some conn \<Rightarrow>
          (case (provider conn, isHealthy conn) of
             (Some p, True) \<Rightarrow> (Inr p, m)
           | _ \<Rightarrow>
               (case establishConnection net conn (roundTrips m) of
                  (r, conn', k') \<Rightarrow>
                    (r, m\<lparr>chainConnections := (chainConnections m)(c \<mapsto> conn'),
                          roundTrips := k'\<rparr>))))"


section \<open>Predicates of the statements\<close>

text \<open>The invariant the specification gives for a quote: \<open>price > 0\<close>, \<open>liquidity >= 0\<close>.\<close>

definition validQuote :: "PriceData \<Rightarrow> bool" where
  "validQuote q = (js_gt (price q) (Finite 0) \<and> js_ge (liquidity q) (Finite 0))"

definition cacheValid :: "DexMonitor \<Rightarrow> bool" where
  "cacheValid s = list_all validQuote (getAllCachedPrices s)"

text \<open>
  An entry as the poller writes it: the key is \<open>cacheKey\<close> of a venue and a monitored
  pair, and the quote's \<open>tokenPair\<close> field is \<open>base/quote\<close> of that pair, as both
  fetchers build it.
\<close>

definition allChainIds :: "ChainId list" where
  "allChainIds = [ETHEREUM, ARBITRUM, POLYGON, BASE]"

definition allDexNames :: "DexName list" where
  "allDexNames = [UNISWAP_V2, UNISWAP_V3, SUSHISWAP, CAMELOT, QUICKSWAP, AERODROME, BASESWAP]"

definition pollerEntry :: "string \<times> PriceData \<Rightarrow> bool" where
  "pollerEntry e =
     list_ex (\<lambda>c. list_ex (\<lambda>n. list_ex (\<lambda>p.
         fst e = chainIdString c @ ''-'' @ dexNameString n @ ''-'' @ pairBaseToken p
                   @ ''-'' @ pairQuoteToken p
         \<and> tokenPair (snd e) = pairBaseToken p @ ''/'' @ pairQuoteToken p)
       TOKEN_PAIRS) allDexNames) allChainIds"

definition pollerCache :: "DexMonitor \<Rightarrow> bool" where
  "pollerCache s = list_all pollerEntry (priceCache s)"

text \<open>
  The endpoints of a chain, what the statements read of an endpoint, and the invariant of
  the endpoint records: an endpoint carries the retry budget that \<open>createRpcConnections\<close>
  gives every endpoint, and it is inactive only when its error counter has reached that
  budget.
\<close>

definition endpointsOf :: "ChainManager \<Rightarrow> ChainId \<Rightarrow> RpcConnection list" where
  "endpointsOf m c = (case chainConnections m c of None \<Rightarrow> [] | Some conn \<Rightarrow> connections conn)"

definition endpointStatus :: "RpcConnection \<Rightarrow> bool \<times> nat \<times> nat" where
  "endpointStatus rc = (isActive rc, errorCount rc, maxRetries rc)"




section \<open>Example inputs\<close>

text \<open>The defaults of the environment schema: 2 percent, 100 dollars, 10000 dollars.\<close>

definition defaultTrading :: TradingConfig where
  "defaultTrading =
     \<lparr> minProfitThreshold = Finite 2, maxGasCost = Finite 100,
       minLiquidityThreshold = Finite 10000 \<rparr>"

text \<open>An ETH/USDC quote of a venue, with its price, liquidity and observation time.\<close>

definition exampleQuote :: "ChainId \<Rightarrow> DexName \<Rightarrow> jsnum \<Rightarrow> jsnum \<Rightarrow> int \<Rightarrow> PriceData" where
  "exampleQuote c d p l t =
     \<lparr> chainId = c, dexName = d, tokenPair = ''ETH/USDC'', baseToken = ''ETH'',
       quoteToken = ''USDC'', price = p, priceUsd = p, liquidity = l, volume24h = Finite 0,
       timestamp = t, blockNumber = 1, gasPrice = None, feeTier = None \<rparr>"

text \<open>
  Collaborators whose fee data is never available (every estimate is then 0), and
  collaborators that report the gas price \<open>g\<close> (in wei) on every chain; the database
  accepts every record.
\<close>

definition feesUnavailable :: Collaborators where
  "feesUnavailable = \<lparr> feeData = (\<lambda>n c. FeeFailed), dbSave = (\<lambda>n. True) \<rparr>"

definition feesAt :: "int \<Rightarrow> Collaborators" where
  "feesAt g = \<lparr> feeData = (\<lambda>n c. FeeData (Some g)), dbSave = (\<lambda>n. True) \<rparr>"

definition freshCalc :: CalcState where
  "freshCalc = \<lparr> gasCalls = 0, dbCalls = 0, logged = [], forwarded = [] \<rparr>"

text \<open>Uniswap V2 on Ethereum, as \<open>DEX_CONFIGS\<close> lists it, and the first monitored pair.\<close>

definition uniswapV2Ethereum :: DexConfig where
  "uniswapV2Ethereum =
     \<lparr> cfgName = UNISWAP_V2, cfgChainId = ETHEREUM,
       factoryAddress = ''0x5C69bEe701ef814a2B6a3EDD4B1652CB9cc5aA6f'',
       routerAddress = ''0x7a250d5630B4cF539739dF2C5dAcb4c659F2488D'',
       version = ''v2'', cfgFeeTier = None, cfgIsActive = True \<rparr>"

definition ethUsdc :: TokenPair where
  "ethUsdc =
     \<lparr> pairBaseToken = ''ETH'', pairQuoteToken = ''USDC'',
       baseTokenAddress = ''0xC02aaA39b223FE8D0A0e5C4F27eAD9083C756Cc2'',
       quoteTokenAddress = ''0xA0b86a33E6441b8C4C8C8C8C8C8C8C8C8C8C8C8'',
       baseTokenDecimals = 18, quoteTokenDecimals = 6, pairAddress = [] \<rparr>"

text \<open>
  A chain that answers every read (block 100, a gas price of 50 gwei, reserves of 5 and
  10000 units), and a chain for which no provider can be had.
\<close>

definition chainUp :: ChainReads where
  "chainUp =
     \<lparr> getProviderR = Inr (), getBlockNumberR = Inr 100, getFeeDataR = Inr (Some 50000000000),
       pairContractR = (\<lambda>a. Inr (5, 10000, ''0xC02aaA39b223FE8D0A0e5C4F27eAD9083C756Cc2'',
                                  ''0xA0b86a33E6441b8C4C8C8C8C8C8C8C8C8C8C8C8'')),
       poolContractR = (\<lambda>a. Inr (2 ^ 96, 1000)),
       storePriceDataR = Inr () \<rparr>"

definition chainDown :: ChainReads where
  "chainDown = chainUp\<lparr>getProviderR := Inl ''All RPC connections failed''\<rparr>"

text \<open>A monitor that holds one quote, observed at time 0 under the poller's key.\<close>

definition monitorWithQuote :: DexMonitor where
  "monitorWithQuote =
     \<lparr> priceCache =
         [(''1-uniswap_v2-ETH-USDC'', exampleQuote ETHEREUM UNISWAP_V2 (Finite 2000) (Finite 10) 0)],
       lastUpdateTime = [(''1-uniswap_v2-ETH-USDC'', 0)],
       storedPrices = [], performanceMetrics = [] \<rparr>"

text \<open>
  Networks on which every round trip fails, or succeeds in 20 ms at time 1000; a manager
  that knows Ethereum by one HTTP and one WebSocket endpoint, newly created.
\<close>

definition networkDown :: network where
  "networkDown = (\<lambda>n u. ProbeFailed)"

definition networkUp :: network where
  "networkUp = (\<lambda>n u. ProbeOk 20 1000)"

text \<open>A network whose first round trip fails and whose later ones succeed.\<close>

definition networkFlaky :: network where
  "networkFlaky = (\<lambda>n u. if n = 0 then ProbeFailed else ProbeOk 20 1000)"

definition ethereumConnection :: "RpcConnection list \<Rightarrow> ChainConnection" where
  "ethereumConnection cs =
     \<lparr> connChainId = ETHEREUM, provider = None, wsProvider = None, connections = cs,
       currentConnectionIndex = 0, isHealthy = False, lastBlockNumber = 0, lastBlockTime = 0 \<rparr>"

definition managerOf :: "ChainConnection \<Rightarrow> ChainManager" where
  "managerOf conn =
     \<lparr> chainConnections = (\<lambda>c. if c = ETHEREUM then Some conn else None), roundTrips = 0 \<rparr>"

definition newEndpoints :: "RpcConnection list" where
  "newEndpoints =
     [newRpcConnection ''https://rpc.ankr.com/eth'' 0,
      newRpcConnection ''wss://mainnet.infura.io/ws/v3/your-project-id'' 0]"


text \<open>
  The record of scenario A of the specification (buy at 2000, sell at 2050, size 10,
  total cost 50), and the same with a total cost of 600 (scenario B).
\<close>

definition recordA :: ArbitrageOpportunity where
  "recordA =
     \<lparr> oppTokenPair = ''ETH/USDC'', oppBaseToken = ''ETH'', oppQuoteToken = ''USDC'',
       sourceChain = ARBITRUM, sourceDex = SUSHISWAP,
       targetChain = ARBITRUM, targetDex = CAMELOT,
       sourcePrice = Finite 2000, targetPrice = Finite 2050,
       priceDifference = Finite 50, priceDifferencePercent = Finite (5 / 2),
       potentialProfit = Finite 500, gasCost = Finite 50,
       netProfit = Finite 450, profitMargin = Finite 90,
       oppTimestamp = 1000, isProfitable = True,
       oppMinProfitThreshold = Finite 2 \<rparr>"

definition recordB :: ArbitrageOpportunity where
  "recordB =
     recordA\<lparr> gasCost := Finite 600, netProfit := Finite (- 100),
              profitMargin := Finite (- 20), isProfitable := False \<rparr>"

definition sushiQuote :: PriceData where
  "sushiQuote = exampleQuote ARBITRUM SUSHISWAP (Finite 2000) (Finite 10) 0"

definition camelotQuote :: PriceData where
  "camelotQuote = exampleQuote ARBITRUM CAMELOT (Finite 2050) (Finite 10) 0"

text \<open>A manager whose Ethereum connection is cached and healthy.\<close>

definition healthyManager :: ChainManager where
  "healthyManager =
     managerOf ((ethereumConnection newEndpoints)
       \<lparr> provider := Some (JsonRpcProvider ''https://rpc.ankr.com/eth''), isHealthy := True \<rparr>)"


section \<open>Properties of the price calculator\<close>

subsection \<open>The fields of a generated record\<close>

lemma calculateOpportunity_Some:
  assumes "calculateOpportunity config env now s t st = (Some opp, st')"
  shows "netProfit opp = js_sub (potentialProfit opp) (gasCost opp)"
    and "profitMargin opp = js_mul (js_div (netProfit opp) (potentialProfit opp)) (Finite 100)"
    and "isProfitable opp = (js_gt (netProfit opp) (Finite 0)
           \<and> js_ge (profitMargin opp) (minProfitThreshold config)
           \<and> js_le (gasCost opp) (maxGasCost config))"
    and "potentialProfit opp = js_mul (js_sub (targetPrice opp) (sourcePrice opp)) (liquidity s)"
    and "st' = st\<lparr>gasCalls := gasCalls st + 2\<rparr>"
  using assms by (auto simp: calculateOpportunity_def Let_def split: if_splits)

lemmas example_defs =
  calculateOpportunity_def defaultTrading_def feesAt_def feesUnavailable_def exampleQuote_def
  freshCalc_def estimateGasCost_def js_sub_def js_gt_def js_ge_def signed_infinity_def Let_def

text \<open>
  Scenario A of the specification: buy at 2000, sell at 2050, size 10, total cost 50
  (a gas price of 12.5 gwei on Arbitrum costs 25 a side).
\<close>

lemma scenario_A:
  "calculateOpportunity defaultTrading (feesAt 12500000000) 1000
      (exampleQuote ARBITRUM SUSHISWAP (Finite 2000) (Finite 10) 0)
      (exampleQuote ARBITRUM CAMELOT (Finite 2050) (Finite 10) 0) freshCalc =
   (Some \<lparr> oppTokenPair = ''ETH/USDC'', oppBaseToken = ''ETH'', oppQuoteToken = ''USDC'',
            sourceChain = ARBITRUM, sourceDex = SUSHISWAP,
            targetChain = ARBITRUM, targetDex = CAMELOT,
            sourcePrice = Finite 2000, targetPrice = Finite 2050,
            priceDifference = Finite 50, priceDifferencePercent = Finite (5 / 2),
            potentialProfit = Finite 500, gasCost = Finite 50,
            netProfit = Finite 450, profitMargin = Finite 90,
            oppTimestamp = 1000, isProfitable = True,
            oppMinProfitThreshold = Finite 2 \<rparr>,
    \<lparr> gasCalls = 2, dbCalls = 0, logged = [], forwarded = [] \<rparr>)"
  by (simp add: example_defs)

text \<open>
  Claim C1. Every record that \<open>calculateOpportunity\<close> generates has its \<open>isProfitable\<close>
  flag equal to the conjunction of \<open>netProfit > 0\<close>, \<open>profitMargin >= minProfitThreshold\<close>
  and \<open>gasCost <= maxGasCost\<close>, read off the same record.
\<close>

theorem isProfitable_is_conjunction:
  assumes "calculateOpportunity config env now sourceP targetP st = (Some opp, st')"
  shows "isProfitable opp =
           (js_gt (netProfit opp) (Finite 0)
            \<and> js_ge (profitMargin opp) (minProfitThreshold config)
            \<and> js_le (gasCost opp) (maxGasCost config))"
  using assms by (auto simp: calculateOpportunity_def Let_def split: if_splits)

theorem isProfitable_is_conjunction_witness:
  "isProfitable
     \<lparr> oppTokenPair = ''ETH/USDC'', oppBaseToken = ''ETH'', oppQuoteToken = ''USDC'',
       sourceChain = ARBITRUM, sourceDex = SUSHISWAP,
       targetChain = ARBITRUM, targetDex = CAMELOT,
       sourcePrice = Finite 2000, targetPrice = Finite 2050,
       priceDifference = Finite 50, priceDifferencePercent = Finite (5 / 2),
       potentialProfit = Finite 500, gasCost = Finite 50,
       netProfit = Finite 450, profitMargin = Finite 90,
       oppTimestamp = 1000, isProfitable = True,
       oppMinProfitThreshold = Finite 2 \<rparr>
   = (js_gt (Finite 450) (Finite 0) \<and> js_ge (Finite 90) (Finite 2)
      \<and> js_le (Finite 50) (Finite 100))"
  using isProfitable_is_conjunction [OF scenario_A] by (simp add: defaultTrading_def)

text \<open>Scenario B: the same quotes at a gas price of 150 gwei, 300 a side.\<close>

lemma scenario_B:
  "calculateOpportunity defaultTrading (feesAt 150000000000) 1000 sushiQuote camelotQuote
      freshCalc = (Some recordB, freshCalc\<lparr>gasCalls := 2\<rparr>)"
  by (simp add: example_defs sushiQuote_def camelotQuote_def recordA_def recordB_def)

subsection \<open>Division by a zero gross profit\<close>

lemma zero_gross_margin:
  assumes "js_le (Finite 0) g"
  shows "\<not> js_gt (js_sub (Finite 0) g) (Finite 0)"
    and "js_mul (js_div (js_sub (Finite 0) g) (Finite 0)) (Finite 100) =
           (if g = Finite 0 then NaN else NegInfinity)"
  using assms by (cases g; auto simp: js_sub_def js_gt_def signed_infinity_def)+

text \<open>
  A quote of liquidity 0, bought at 2000 and sold at 2050, when no fee data can be had
  (cost 0): the margin is \<open>0 / 0\<close>.
\<close>

lemma zero_liquidity_no_fees:
  "calculateOpportunity defaultTrading feesUnavailable 1000
      (exampleQuote ETHEREUM UNISWAP_V2 (Finite 2000) (Finite 0) 0)
      (exampleQuote ETHEREUM SUSHISWAP (Finite 2050) (Finite 10) 0) freshCalc =
   (Some \<lparr> oppTokenPair = ''ETH/USDC'', oppBaseToken = ''ETH'', oppQuoteToken = ''USDC'',
            sourceChain = ETHEREUM, sourceDex = UNISWAP_V2,
            targetChain = ETHEREUM, targetDex = SUSHISWAP,
            sourcePrice = Finite 2000, targetPrice = Finite 2050,
            priceDifference = Finite 50, priceDifferencePercent = Finite (5 / 2),
            potentialProfit = Finite 0, gasCost = Finite 0,
            netProfit = Finite 0, profitMargin = NaN,
            oppTimestamp = 1000, isProfitable = False,
            oppMinProfitThreshold = Finite 2 \<rparr>,
    freshCalc\<lparr>gasCalls := 2\<rparr>)"
  by (simp add: example_defs)

text \<open>
  Claim C4, as stated, fails: nothing guards the division. With a gross profit of zero
  and a total cost of 60 (a gas price of 50 gwei on Ethereum, 30 a side) the record is
  generated with a margin of \<open>-Infinity\<close>.
\<close>

theorem margin_division_unguarded_counterexample:
  "map_option potentialProfit (fst (calculateOpportunity defaultTrading (feesAt 50000000000) 1000
      (exampleQuote ETHEREUM UNISWAP_V2 (Finite 2000) (Finite 0) 0)
      (exampleQuote ETHEREUM SUSHISWAP (Finite 2050) (Finite 10) 0) freshCalc))
     = Some (Finite 0)
   \<and> map_option profitMargin (fst (calculateOpportunity defaultTrading (feesAt 50000000000) 1000
      (exampleQuote ETHEREUM UNISWAP_V2 (Finite 2000) (Finite 0) 0)
      (exampleQuote ETHEREUM SUSHISWAP (Finite 2050) (Finite 10) 0) freshCalc))
     = Some NegInfinity
   \<and> \<not> js_finite NegInfinity"
  by (simp add: example_defs)

text \<open>
  Claim C4, amended. When the gross profit of a generated record is zero and its total
  cost is not negative, no error is raised and the record is not profitable; its margin
  is not finite: \<open>NaN\<close> when the cost is zero, \<open>-Infinity\<close> otherwise.
\<close>

theorem zero_gross_profit_not_profitable:
  assumes "calculateOpportunity config env now sourceP targetP st = (Some opp, st')"
    and "potentialProfit opp = Finite 0"
    and "js_le (Finite 0) (gasCost opp)"
  shows "\<not> isProfitable opp
         \<and> profitMargin opp = (if gasCost opp = Finite 0 then NaN else NegInfinity)"
  using calculateOpportunity_Some(1,2,3)[OF assms(1)] zero_gross_margin[OF assms(3)] assms(2)
  by simp

theorem zero_gross_profit_not_profitable_witness:
  "\<not> isProfitable
       \<lparr> oppTokenPair = ''ETH/USDC'', oppBaseToken = ''ETH'', oppQuoteToken = ''USDC'',
         sourceChain = ETHEREUM, sourceDex = UNISWAP_V2,
         targetChain = ETHEREUM, targetDex = SUSHISWAP,
         sourcePrice = Finite 2000, targetPrice = Finite 2050,
         priceDifference = Finite 50, priceDifferencePercent = Finite (5 / 2),
         potentialProfit = Finite 0, gasCost = Finite 0,
         netProfit = Finite 0, profitMargin = NaN,
         oppTimestamp = 1000, isProfitable = False,
         oppMinProfitThreshold = Finite 2 \<rparr>
   \<and> js_le (Finite 0) (Finite 0)"
  using zero_gross_profit_not_profitable [OF zero_liquidity_no_fees] by simp

subsection \<open>The size behind the gross profit\<close>

text \<open>
  The gross profit is the price gap times the liquidity of the first quote of the call,
  whichever of the two is the cheaper.
\<close>

lemma potentialProfit_first_quote:
  assumes "calculateOpportunity config env now sourceP targetP st = (Some opp, st')"
  shows "potentialProfit opp =
           js_mul (js_sub (targetPrice opp) (sourcePrice opp)) (liquidity sourceP)"
  using assms by (rule calculateOpportunity_Some(4))

text \<open>
  Claim C6 at a failing input. The first quote is the dearer one (2050, liquidity 7),
  the second the cheaper (2000, liquidity 10): the buy side is the second quote, on
  SushiSwap, and the gross profit is \<open>50 * 7 = 350\<close>, not \<open>50 * 10 = 500\<close>. With the
  two quotes in the other order it is 500.
\<close>

theorem gross_profit_size_in_both_orders:
  "map_option sourceDex (fst (calculateOpportunity defaultTrading feesUnavailable 1000
      (exampleQuote ETHEREUM UNISWAP_V2 (Finite 2050) (Finite 7) 0)
      (exampleQuote ETHEREUM SUSHISWAP (Finite 2000) (Finite 10) 0) freshCalc))
     = Some SUSHISWAP
   \<and> map_option potentialProfit (fst (calculateOpportunity defaultTrading feesUnavailable 1000
      (exampleQuote ETHEREUM UNISWAP_V2 (Finite 2050) (Finite 7) 0)
      (exampleQuote ETHEREUM SUSHISWAP (Finite 2000) (Finite 10) 0) freshCalc))
     = Some (Finite 350)
   \<and> map_option potentialProfit (fst (calculateOpportunity defaultTrading feesUnavailable 1000
      (exampleQuote ETHEREUM SUSHISWAP (Finite 2000) (Finite 10) 0)
      (exampleQuote ETHEREUM UNISWAP_V2 (Finite 2050) (Finite 7) 0) freshCalc))
     = Some (Finite 500)"
  by (simp add: example_defs)

subsection \<open>What the detector returns\<close>

lemma calculateOpportunity_state:
  "snd (calculateOpportunity config env now s t st) =
     (if fst (calculateOpportunity config env now s t st) = None then st
      else st\<lparr>gasCalls := gasCalls st + 2\<rparr>)"
  by (simp add: calculateOpportunity_def Let_def)

lemma calculateOpportunity_gasCalls:
  assumes "gasCalls st = gasCalls sz"
  shows "fst (calculateOpportunity config env now s t st) =
         fst (calculateOpportunity config env now s t sz)"
  using assms by (simp add: calculateOpportunity_def Let_def)

text \<open>
  The loop returns the records it was given followed by the profitable records of the
  pairs, and logs and forwards exactly those; \<open>sz\<close> is any state with the same count of
  gas estimates.
\<close>

lemma comparePrices_returns:
  assumes "comparePrices config env now ps acc st = (Inr opps, st')"
    and "gasCalls st = gasCalls sz"
  shows "opps = acc @ filter isProfitable (survivingRecords config env now ps sz)
         \<and> forwarded st' =
             forwarded st @ filter isProfitable (survivingRecords config env now ps sz)
         \<and> logged st' =
             logged st @ filter isProfitable (survivingRecords config env now ps sz)"
  using assms
proof (induction ps arbitrary: acc st sz)
  case Nil
  then show ?case by simp
next
  case (Cons pr rest)
  obtain a b where pr: "pr = (a, b)" by (cases pr)
  show ?case
  proof (cases "chainId a = chainId b \<and> dexName a = dexName b")
    case True
    with Cons pr show ?thesis by simp
  next
    case False
    note venues = this
    let ?ra = "calculateOpportunity config env now a b st"
    let ?rb = "calculateOpportunity config env now a b sz"
    have same: "fst ?ra = fst ?rb"
      using Cons.prems(2) by (rule calculateOpportunity_gasCalls)
    show ?thesis
    proof (cases "fst ?ra")
      case None
      then have ra: "?ra = (None, st)" and rb: "?rb = (None, sz)"
        using same calculateOpportunity_state[of config env now a b st]
          calculateOpportunity_state[of config env now a b sz]
        by (simp_all add: prod_eq_iff)
      from Cons.prems(1) pr venues ra
      have "comparePrices config env now rest acc st = (Inr opps, st')" by simp
      from Cons.IH[OF this Cons.prems(2)] show ?thesis using pr venues rb by auto
    next
      case (Some opp)
      let ?sa = "st\<lparr>gasCalls := gasCalls st + 2\<rparr>"
      let ?sb = "sz\<lparr>gasCalls := gasCalls sz + 2\<rparr>"
      from Some have ra: "?ra = (Some opp, ?sa)" and rb: "?rb = (Some opp, ?sb)"
        using same calculateOpportunity_state[of config env now a b st]
          calculateOpportunity_state[of config env now a b sz]
        by (simp_all add: prod_eq_iff)
      show ?thesis
      proof (cases "isProfitable opp")
        case False
        from Cons.prems(1) pr venues ra False
        have rec: "comparePrices config env now rest acc ?sa = (Inr opps, st')" by simp
        have gas: "gasCalls ?sa = gasCalls ?sb" using Cons.prems(2) by simp
        show ?thesis using Cons.IH[OF rec gas] pr venues rb False by auto
      next
        case True
        let ?sc = "?sa\<lparr>logged := logged st @ [opp], dbCalls := Suc (dbCalls st),
                       forwarded := forwarded st @ [opp]\<rparr>"
        have store: "storeArbitrageOpportunity env opp (logArbitrageOpportunity opp ?sa) =
            (if dbSave env (dbCalls st) then Inr () else Inl DatabaseError, ?sc)"
          by (simp add: storeArbitrageOpportunity_def logArbitrageOpportunity_def Let_def)
        from Cons.prems(1) pr venues ra True store
        have rec: "comparePrices config env now rest (acc @ [opp]) ?sc = (Inr opps, st')"
          by (simp split: if_splits)
        have gas: "gasCalls ?sc = gasCalls ?sb" using Cons.prems(2) by simp
        show ?thesis using Cons.IH[OF rec gas] pr venues rb True by auto
      qed
    qed
  qed
qed

text \<open>When the database accepts every record, the loop returns.\<close>

lemma comparePrices_total:
  assumes "\<And>n. dbSave env n"
  shows "\<exists>opps st'. comparePrices config env now ps acc st = (Inr opps, st')"
proof (induction ps arbitrary: acc st)
  case Nil
  show ?case by simp
next
  case (Cons pr rest)
  obtain a b where pr: "pr = (a, b)" by (cases pr)
  obtain r s1 where c: "calculateOpportunity config env now a b st = (r, s1)"
    by (cases "calculateOpportunity config env now a b st")
  show ?case
    using Cons.IH pr c assms
    by (cases r) (simp_all add: storeArbitrageOpportunity_def Let_def)
qed

lemmas detector_defs =
  calculatePairOpportunities_def isRecent_def MAX_PRICE_AGE_def sushiQuote_def camelotQuote_def
  storeArbitrageOpportunity_def logArbitrageOpportunity_def

lemma detector_scenario_A:
  "calculatePairOpportunities defaultTrading (feesAt 12500000000) 1000
      [sushiQuote, camelotQuote] freshCalc =
   (Inr [recordA],
    \<lparr> gasCalls = 2, dbCalls = 1, logged = [recordA], forwarded = [recordA] \<rparr>)"
  by (simp add: detector_defs example_defs recordA_def)

text \<open>
  Claim C3, as stated, fails. In scenario B the pair of quotes survives every check of
  the detector and a record is generated for it, with \<open>isProfitable = false\<close>; the
  returned list is empty.
\<close>

theorem unprofitable_record_not_returned_counterexample:
  "fst (calculatePairOpportunities defaultTrading (feesAt 150000000000) 1000
          [sushiQuote, camelotQuote] freshCalc) = Inr []
   \<and> survivingRecords defaultTrading (feesAt 150000000000) 1000
          (pairsOf [sushiQuote, camelotQuote]) freshCalc = [recordB]
   \<and> isProfitable recordB = False"
  by (simp add: detector_defs example_defs recordA_def recordB_def)

text \<open>
  Claim C3, amended. The list that \<open>calculatePairOpportunities\<close> returns holds, in the
  order of generation, exactly the records of the surviving cross-venue pairs of fresh
  quotes whose flag is true; the same records, and no others, are logged and forwarded
  to the database.
\<close>

theorem returned_records_are_the_profitable_ones:
  assumes "calculatePairOpportunities config env now prices st = (Inr opps, st')"
  shows "opps = filter isProfitable
                  (survivingRecords config env now (pairsOf (filter (isRecent now) prices)) st)
         \<and> forwarded st' = forwarded st @ opps \<and> logged st' = logged st @ opps"
proof (cases "length (filter (isRecent now) prices) < 2")
  case True
  then have "pairsOf (filter (isRecent now) prices) = []"
    by (cases "filter (isRecent now) prices" rule: pairsOf.cases) auto
  with assms True show ?thesis by (simp add: calculatePairOpportunities_def)
next
  case False
  with assms
  have "comparePrices config env now (pairsOf (filter (isRecent now) prices)) [] st
          = (Inr opps, st')"
    by (simp add: calculatePairOpportunities_def)
  from comparePrices_returns[OF this refl] show ?thesis by simp
qed

theorem returned_records_are_the_profitable_ones_witness:
  "[recordA] = filter isProfitable
       (survivingRecords defaultTrading (feesAt 12500000000) 1000
          (pairsOf (filter (isRecent 1000) [sushiQuote, camelotQuote])) freshCalc)
   \<and> forwarded \<lparr> gasCalls = 2, dbCalls = 1, logged = [recordA], forwarded = [recordA] \<rparr>
       = forwarded freshCalc @ [recordA]"
  using returned_records_are_the_profitable_ones [OF detector_scenario_A] by simp

subsection \<open>Where stale quotes are dropped\<close>

text \<open>
  \<open>getAllCachedPrices\<close> hands over the stored quotes as they are, whatever their age. The
  age is tested by the detector: \<open>calculatePairOpportunities\<close> gives on a list what it
  gives on the quotes of that list younger than \<open>MAX_PRICE_AGE\<close>.
\<close>

lemma getAllCachedPrices_all:
  "length (getAllCachedPrices s) = length (priceCache s)
   \<and> set (getAllCachedPrices s) = snd ` set (priceCache s)"
  by (simp add: getAllCachedPrices_def)

lemma detector_ignores_stale_quotes:
  "calculatePairOpportunities config env now prices st =
   calculatePairOpportunities config env now (filter (isRecent now) prices) st"
  by (simp add: calculatePairOpportunities_def)


section \<open>Properties of the DEX monitor\<close>

subsection \<open>No fetch delivers a quote\<close>

text \<open>
  Both address lookups are placeholders that return \<open>null\<close>, so each fetcher raises
  before it reads the chain, and \<open>fetchPriceForDex\<close> never reaches the statements that
  write the cache: it leaves the whole state as it found it.
\<close>

lemma fetchUniswapV2Price_raises:
  "fetchUniswapV2Price reads d p b g now = Inl (Error ''Pair address not found'')"
  by (simp add: fetchUniswapV2Price_def getPairAddress_def)

lemma fetchUniswapV3Price_raises:
  "fetchUniswapV3Price reads d p b g now = Inl (Error ''Pool address not found'')"
  by (simp add: fetchUniswapV3Price_def getPoolAddress_def)

lemma fetchQuote_no_quote: "fetchQuote reads d p now \<noteq> Inr (Some q)"
  by (simp add: fetchQuote_def fetchUniswapV2Price_raises fetchUniswapV3Price_raises
      fetchSushiSwapPrice_def split: sum.splits DexName.splits)

lemma fetchPriceForDex_state: "snd (fetchPriceForDex reads d p now s) = s"
  using fetchQuote_no_quote[of reads d p now]
  by (auto simp: fetchPriceForDex_def Let_def onFetchError_def split: sum.splits option.splits)

lemma fetchPriceForDex_result:
  "fst (fetchPriceForDex reads d p now s) = Inr () \<or>
   fst (fetchPriceForDex reads d p now s) = Inl (ReferenceError ''startTime is not defined'')"
  using fetchQuote_no_quote[of reads d p now]
  by (auto simp: fetchPriceForDex_def Let_def onFetchError_def split: sum.splits option.splits)

lemmas monitor_defs =
  fetchPriceForDex_def fetchQuote_def onFetchError_def cacheKey_def chainDown_def chainUp_def
  uniswapV2Ethereum_def ethUsdc_def monitorWithQuote_def PRICE_UPDATE_INTERVAL_def
  fetchUniswapV2Price_raises Let_def

subsection \<open>What the poller stores\<close>

text \<open>
  A run of fetches leaves the monitor as it was; from a new monitor the cache stays
  empty, whatever the chain answers.
\<close>

lemma monitorRun_state: "monitorRun fs s = s"
proof (induction fs arbitrary: s)
  case Nil
  show ?case by simp
next
  case (Cons f fs)
  obtain reads d p now where f: "f = (reads, d, p, now)" by (cases f)
  show ?case using Cons.IH by (simp add: f fetchPriceForDex_state)
qed

lemma monitorRun_cache_empty: "getAllCachedPrices (monitorRun fs newDexMonitor) = []"
  by (simp add: monitorRun_state getAllCachedPrices_def newDexMonitor_def)

text \<open>
  The statements that write the cache check nothing: had a fetcher delivered a quote of
  price 0, \<open>cachePrice\<close> would have stored it.
\<close>

lemma cachePrice_checks_nothing:
  "\<not> cacheValid (cachePrice k now (exampleQuote ETHEREUM UNISWAP_V2 (Finite 0) (Finite 10) 0)
        newDexMonitor)"
  by (simp add: cacheValid_def validQuote_def getAllCachedPrices_def cachePrice_def
      newDexMonitor_def exampleQuote_def js_gt_def)

subsection \<open>The two key formats\<close>

lemma no_slash_chain: "CHR ''/'' \<notin> set (chainIdString c)"
  by (cases c) simp_all

lemma no_slash_dex: "CHR ''/'' \<notin> set (dexNameString d)"
  by (cases d) simp_all

lemma no_slash_pair:
  "p \<in> set TOKEN_PAIRS \<Longrightarrow>
     CHR ''/'' \<notin> set (pairBaseToken p) \<and> CHR ''/'' \<notin> set (pairQuoteToken p)"
  by (auto simp: TOKEN_PAIRS_def)

lemma pollerEntry_key_no_slash:
  assumes "pollerEntry e"
  shows "CHR ''/'' \<notin> set (fst e)" and "CHR ''/'' \<in> set (tokenPair (snd e))"
proof -
  from assms obtain c n p where p: "p \<in> set TOKEN_PAIRS"
    and k: "fst e = chainIdString c @ ''-'' @ dexNameString n @ ''-'' @ pairBaseToken p
                      @ ''-'' @ pairQuoteToken p"
    and t: "tokenPair (snd e) = pairBaseToken p @ ''/'' @ pairQuoteToken p"
    unfolding pollerEntry_def list_ex_iff by blast
  show "CHR ''/'' \<notin> set (fst e)"
    using no_slash_chain[of c] no_slash_dex[of n] no_slash_pair[OF p] by (simp add: k)
  show "CHR ''/'' \<in> set (tokenPair (snd e))" by (simp add: t)
qed

text \<open>The poller writes entries of that form only.\<close>

lemma pollerEntry_cacheKey:
  assumes "p \<in> set TOKEN_PAIRS"
    and "tokenPair q = pairBaseToken p @ ''/'' @ pairQuoteToken p"
  shows "pollerEntry (cacheKey d p, q)"
proof -
  have "cfgChainId d \<in> set allChainIds" by (cases "cfgChainId d") (simp_all add: allChainIds_def)
  moreover have "cfgName d \<in> set allDexNames"
    by (cases "cfgName d") (simp_all add: allDexNames_def)
  ultimately show ?thesis
    using assms unfolding pollerEntry_def list_ex_iff cacheKey_def by auto
qed

lemma set_alist_update:
  "set (AList.update k v al) \<subseteq> insert (k, v) (set al)"
  by (induct al) auto

lemma pollerCache_cachePrice:
  assumes "pollerCache s" and "p \<in> set TOKEN_PAIRS"
    and "tokenPair q = pairBaseToken p @ ''/'' @ pairQuoteToken p"
  shows "pollerCache (cachePrice (cacheKey d p) now q s)"
proof -
  have "set (AList.update (cacheKey d p) q (priceCache s))
          \<subseteq> insert (cacheKey d p, q) (set (priceCache s))"
    by (rule set_alist_update)
  then show ?thesis
    using assms(1) pollerEntry_cacheKey[OF assms(2,3), of d]
    by (auto simp: pollerCache_def cachePrice_def list_all_iff)
qed

lemma pollerCache_fetchPriceForDex:
  "pollerCache s \<Longrightarrow> pollerCache (snd (fetchPriceForDex reads d p now s))"
  by (simp add: fetchPriceForDex_state)

lemma pollerCache_monitorWithQuote: "pollerCache monitorWithQuote"
  by (simp add: pollerCache_def pollerEntry_def monitorWithQuote_def exampleQuote_def
      allChainIds_def allDexNames_def TOKEN_PAIRS_def)

text \<open>The quote of \<open>monitorWithQuote\<close> is found under its pair written with a hyphen.\<close>

lemma getCachedPrice_hyphen:
  "getCachedPrice monitorWithQuote ETHEREUM UNISWAP_V2 ''ETH-USDC'' =
     Some (exampleQuote ETHEREUM UNISWAP_V2 (Finite 2000) (Finite 10) 0)"
  by (simp add: getCachedPrice_def monitorWithQuote_def)

text \<open>
  Claim C7. In a cache whose entries are as the poller writes them, \<open>getCachedPrice\<close>
  called with the \<open>tokenPair\<close> field of any cached quote returns \<open>null\<close>, for every chain
  and venue: the key it looks up contains a slash, and no key of the poller does.
\<close>

theorem getCachedPrice_misses_own_pair:
  assumes "pollerCache s" and "(k, q) \<in> set (priceCache s)"
  shows "getCachedPrice s c dn (tokenPair q) = None
         \<and> chainIdString c @ ''-'' @ dexNameString dn @ ''-'' @ tokenPair q
             \<notin> fst ` set (priceCache s)"
proof -
  let ?key = "chainIdString c @ ''-'' @ dexNameString dn @ ''-'' @ tokenPair q"
  from assms have "pollerEntry (k, q)" by (auto simp: pollerCache_def list_all_iff)
  then have "CHR ''/'' \<in> set (tokenPair q)" using pollerEntry_key_no_slash(2) by fastforce
  then have slash: "CHR ''/'' \<in> set ?key" by simp
  have "?key \<notin> fst ` set (priceCache s)"
  proof
    assume "?key \<in> fst ` set (priceCache s)"
    then obtain e where e: "e \<in> set (priceCache s)" and k: "fst e = ?key" by auto
    from assms(1) e have "pollerEntry e" by (simp add: pollerCache_def list_all_iff)
    then have "CHR ''/'' \<notin> set (fst e)" by (rule pollerEntry_key_no_slash(1))
    with slash k show False by simp
  qed
  then show ?thesis by (simp add: getCachedPrice_def map_of_eq_None_iff)
qed

theorem getCachedPrice_misses_own_pair_witness:
  "getCachedPrice monitorWithQuote ETHEREUM UNISWAP_V2 ''ETH/USDC'' = None
   \<and> ''1-uniswap_v2-ETH/USDC'' \<notin> fst ` set (priceCache monitorWithQuote)"
  using getCachedPrice_misses_own_pair [OF pollerCache_monitorWithQuote,
      of "''1-uniswap_v2-ETH-USDC''" "exampleQuote ETHEREUM UNISWAP_V2 (Finite 2000) (Finite 10) 0"
         ETHEREUM UNISWAP_V2]
  by (simp add: monitorWithQuote_def exampleQuote_def)

subsection \<open>A failed fetch\<close>

text \<open>
  A fetch that raises leaves the cache and the update times as they were (so does every
  fetch), and records no metric.
\<close>

lemma failed_fetch_frame:
  assumes "fetchPriceForDex reads d p now s = (Inl e, s')"
  shows "priceCache s' = priceCache s" and "lastUpdateTime s' = lastUpdateTime s"
    and "performanceMetrics s' = performanceMetrics s"
    and "e = ReferenceError ''startTime is not defined''"
  using assms fetchPriceForDex_state[of reads d p now s]
    fetchPriceForDex_result[of reads d p now s] by auto

text \<open>
  Claim C8 at a failing input. The monitor holds a quote for Uniswap V2 on Ethereum,
  fetched at time 0, and has recorded no metric; at time 5000 the provider cannot be
  had. The cached quote and its update time are untouched, but no metric is recorded:
  the method ends with the \<open>ReferenceError\<close> of its \<open>catch\<close> block.
\<close>

theorem failed_fetch_records_no_metric:
  "fetchPriceForDex chainDown uniswapV2Ethereum ethUsdc 5000 monitorWithQuote =
     (Inl (ReferenceError ''startTime is not defined''), monitorWithQuote)
   \<and> performanceMetrics monitorWithQuote = []"
  by (simp add: monitor_defs)


section \<open>Properties of the chain manager\<close>

subsection \<open>Endpoints after a connection attempt\<close>














lemmas manager_defs =
  getProvider_def establishConnection_def connectEndpoint_def
  endpointsOf_def endpointStatus_def managerOf_def ethereumConnection_def newEndpoints_def
  newRpcConnection_def MAX_RETRIES_def networkDown_def networkUp_def networkFlaky_def
  healthyManager_def

text \<open>
  New endpoints on a network that is down: \<open>getProvider\<close> tries both, each makes three
  attempts, counts four errors and is deactivated, past its budget of 3. On a network
  whose first round trip fails, the first endpoint fails once, succeeds at its second
  attempt and stays active, its counter reset.
\<close>

lemma getProvider_network_down:
  "map endpointStatus
     (endpointsOf (snd (getProvider networkDown (managerOf (ethereumConnection newEndpoints))
        ETHEREUM)) ETHEREUM) = [(False, 4, 3), (False, 4, 3)]"
  by (simp add: manager_defs numeral_3_eq_3)

lemma getProvider_network_flaky:
  "fst (getProvider networkFlaky (managerOf (ethereumConnection newEndpoints)) ETHEREUM)
     = Inr (JsonRpcProvider ''https://rpc.ankr.com/eth'')
   \<and> map endpointStatus
     (endpointsOf (snd (getProvider networkFlaky (managerOf (ethereumConnection newEndpoints))
        ETHEREUM)) ETHEREUM) = [(True, 0, 3), (True, 0, 3)]"
  by (simp add: manager_defs numeral_3_eq_3)






subsection \<open>A healthy cached connection\<close>

lemma healthyManager_cached:
  "chainConnections healthyManager ETHEREUM =
     Some ((ethereumConnection newEndpoints)
       \<lparr> provider := Some (JsonRpcProvider ''https://rpc.ankr.com/eth''), isHealthy := True \<rparr>)"
  by (simp add: healthyManager_def managerOf_def)

text \<open>
  Claim C10. When the connection of a chain is cached and marked healthy, \<open>getProvider\<close>
  returns the cached provider and leaves the manager as it was, the count of round trips
  included: it makes no round trip and changes no endpoint or connection. A second call
  therefore returns the same provider, again without a round trip.
\<close>

theorem getProvider_cached_is_idempotent:
  assumes "chainConnections m c = Some conn" and "provider conn = Some p" and "isHealthy conn"
  shows "getProvider net m c = (Inr p, m)
         \<and> getProvider net (snd (getProvider net m c)) c = (Inr p, m)
         \<and> roundTrips (snd (getProvider net m c)) = roundTrips m"
  using assms by (simp add: getProvider_def)

theorem getProvider_cached_is_idempotent_witness:
  "getProvider networkDown healthyManager ETHEREUM =
     (Inr (JsonRpcProvider ''https://rpc.ankr.com/eth''), healthyManager)
   \<and> getProvider networkDown (snd (getProvider networkDown healthyManager ETHEREUM)) ETHEREUM =
     (Inr (JsonRpcProvider ''https://rpc.ankr.com/eth''), healthyManager)
   \<and> roundTrips (snd (getProvider networkDown healthyManager ETHEREUM)) = roundTrips healthyManager"
  using getProvider_cached_is_idempotent [OF healthyManager_cached, of _ networkDown]
  by (simp add: ethereumConnection_def)

end
